theory Spec2Isabelle
  imports Complex_Main
begin

section \<open>JavaScript values\<close>

text \<open>
  The client is untyped at run time: the caught \<open>error\<close> is declared \<open>any\<close>, and
  request and response bodies are decoded JSON. Values are modelled as a datatype.
  Numbers of these values are the integer-valued ones (HTTP status codes);
  an object is its list of properties.
\<close>

datatype jsval =
    JUndefined
  | JNull
  | JBool bool
  | JNum int
  | JStr string
  | JArr "jsval list"
  | JObj "(string \<times> jsval) list"

text \<open>Truthiness, as tested by \<open>if (v)\<close> and by the left operand of \<open>||\<close>.\<close>

fun truthy :: "jsval \<Rightarrow> bool" where
  "truthy JUndefined = False"
| "truthy JNull = False"
| "truthy (JBool b) = b"
| "truthy (JNum n) = (n \<noteq> 0)"
| "truthy (JStr s) = (s \<noteq> [])"
| "truthy (JArr xs) = True"
| "truthy (JObj kvs) = True"

text \<open>
  A property read \<open>v.k\<close>. Reading a property of \<open>undefined\<close> or \<open>null\<close> raises a
  TypeError (the result \<open>None\<close>); an object yields the property or \<open>undefined\<close>; the
  names this program reads (\<open>response\<close>, \<open>request\<close>, \<open>message\<close>, \<open>data\<close>, \<open>status\<close>)
  are no properties of booleans, numbers, strings or arrays, which yield \<open>undefined\<close>.
\<close>

fun get_prop :: "jsval \<Rightarrow> string \<Rightarrow> jsval option" where
  "get_prop JUndefined k = None"
| "get_prop JNull k = None"
| "get_prop (JObj kvs) k = (case map_of kvs k of None \<Rightarrow> Some JUndefined | Some v \<Rightarrow> Some v)"
| "get_prop v k = Some JUndefined"

text \<open>Optional chaining \<open>v?.k\<close>: \<open>undefined\<close> when \<open>v\<close> is \<open>undefined\<close> or \<open>null\<close>.\<close>

fun get_prop_opt :: "jsval \<Rightarrow> string \<Rightarrow> jsval" where
  "get_prop_opt JUndefined k = JUndefined"
| "get_prop_opt JNull k = JUndefined"
| "get_prop_opt (JObj kvs) k = (case map_of kvs k of None \<Rightarrow> JUndefined | Some v \<Rightarrow> v)"
| "get_prop_opt v k = JUndefined"

subsection \<open>Conversion to string\<close>

text \<open>
  Template literals and the \<open>Error\<close> constructor convert their argument to a string.
  Integers print in plain decimal (for magnitudes below \<open>10^21\<close>, beyond which
  JavaScript switches to exponent notation; status codes are far below). An object
  prints as \<open>[object Object]\<close>, which is the conversion of an object that has no
  \<open>toString\<close> property of its own. The theorems for C1 to C10 below rely on the
  conversion of strings and of the status of a response only.
\<close>

definition digit_char :: "nat \<Rightarrow> char" where
  "digit_char d = ''0123456789'' ! d"

function nat_to_string :: "nat \<Rightarrow> string" where
  "nat_to_string n =
     (if n < 10 then [digit_char n] else nat_to_string (n div 10) @ [digit_char (n mod 10)])"
  by pat_completeness auto
termination
  by (relation "measure id") auto

declare nat_to_string.simps [simp del]

definition int_to_string :: "int \<Rightarrow> string" where
  "int_to_string i = (if i < 0 then CHR ''-'' # nat_to_string (nat (- i)) else nat_to_string (nat i))"

fun join_with_comma :: "string list \<Rightarrow> string" where
  "join_with_comma [] = []"
| "join_with_comma [s] = s"
| "join_with_comma (s # t # ss) = s @ '','' @ join_with_comma (t # ss)"

fun to_string :: "jsval \<Rightarrow> string" where
  "to_string JUndefined = ''undefined''"
| "to_string JNull = ''null''"
| "to_string (JBool b) = (if b then ''true'' else ''false'')"
| "to_string (JNum n) = int_to_string n"
| "to_string (JStr s) = s"
| "to_string (JArr xs) =
     join_with_comma (map (\<lambda>x. if x = JUndefined \<or> x = JNull then [] else to_string x) xs)"
| "to_string (JObj kvs) = ''[object Object]''"

section \<open>Error normalisation\<close>

text \<open>
  What a public method rejects with: the \<open>Error\<close> built by \<open>handleError\<close>, carrying
  only a message, or the TypeError that a property read of \<open>undefined\<close>/\<open>null\<close>
  raises inside \<open>handleError\<close> (its message text is engine-defined and not modelled).
\<close>

datatype js_error = Error string | TypeError

text \<open>
  \<^verbatim>\<open>
  private handleError(error: any): Error {
    if (error.response) {
      const message = error.response.data?.message || `API Error: ${error.response.status}`;
      return new Error(message);
    } else if (error.request) {
      return new Error('Network error: Unable to reach Taxu API');
    } else {
      return new Error(`Request error: ${error.message}`);
    }
  }
  \<close>
  Every property read goes through \<open>get_prop\<close>; \<open>new Error(m)\<close> stores the string
  conversion of \<open>m\<close>.
\<close>

definition handleError :: "jsval \<Rightarrow> js_error" where
  "handleError error =
     (case get_prop error ''response'' of
        None \<Rightarrow> TypeError
      | Some response \<Rightarrow>
          if truthy response then
            (case get_prop response ''data'' of
               None \<Rightarrow> TypeError
             | Some data \<Rightarrow>
                 let m = get_prop_opt data ''message'' in
                 if truthy m then Error (to_string m)
                 else (case get_prop response ''status'' of
                         None \<Rightarrow> TypeError
                       | Some status \<Rightarrow> Error (to_string (JStr (''API Error: '' @ to_string status)))))
          else
            (case get_prop error ''request'' of
               None \<Rightarrow> TypeError
             | Some request \<Rightarrow>
                 if truthy request then Error ''Network error: Unable to reach Taxu API''
                 else (case get_prop error ''message'' of
                         None \<Rightarrow> TypeError
                       | Some message \<Rightarrow> Error (''Request error: '' @ to_string message))))"

section \<open>The HTTP library\<close>

text \<open>
  The client delegates to an axios instance; axios is a dependency, not part of
  this repository. An instance is represented by the configuration given to
  \<open>axios.create\<close>. A call on an instance takes a per-call configuration, which
  the library merges over the instance defaults: a header given per call replaces
  the default of the same name (names are compared as written). What the library
  and the network then do is a parameter of the model: a \<open>transport\<close> receives the
  settings in force for the call, that is, the merged ones, whose headers are the
  headers the request goes out with, and the per-call configuration; it either
  resolves with a response (\<open>Inr\<close>; axios resolves for the 2xx statuses) or throws
  a value (\<open>Inl\<close>).
\<close>

text \<open>
  Numbers of the configuration: any JavaScript number, only tested for
  truthiness and passed on. Zero and negative zero are not told apart.
\<close>

datatype js_number = Num real | NaN | PosInfinity | NegInfinity

fun number_truthy :: "js_number \<Rightarrow> bool" where
  "number_truthy (Num x) = (x \<noteq> 0)"
| "number_truthy NaN = False"
| "number_truthy PosInfinity = True"
| "number_truthy NegInfinity = True"

record AxiosDefaults =
  create_baseURL :: string
  create_timeout :: js_number
  create_headers :: "(string \<times> string) list"

text \<open>
  The per-call configuration; an absent property is \<open>undefined\<close>, absent headers
  are the empty list.
\<close>

record AxiosRequestConfig =
  cfg_url :: string
  cfg_method :: string
  cfg_data :: jsval
  cfg_params :: jsval
  cfg_headers :: "(string \<times> string) list"

record AxiosResponse =
  resp_data :: jsval
  resp_status :: int

type_synonym transport = "AxiosDefaults \<Rightarrow> AxiosRequestConfig \<Rightarrow> jsval + AxiosResponse"

definition axios_create :: "AxiosDefaults \<Rightarrow> AxiosDefaults" where
  "axios_create config = config"

definition merge_headers :: "(string \<times> string) list \<Rightarrow> (string \<times> string) list \<Rightarrow> (string \<times> string) list" where
  "merge_headers defaults given =
     map (\<lambda>(k, v). (k, case map_of given k of None \<Rightarrow> v | Some w \<Rightarrow> w)) defaults
     @ filter (\<lambda>(k, w). map_of defaults k = None) given"

definition mergeConfig :: "AxiosDefaults \<Rightarrow> AxiosRequestConfig \<Rightarrow> AxiosDefaults" where
  "mergeConfig inst config =
     inst\<lparr>create_headers := merge_headers (create_headers inst) (cfg_headers config)\<rparr>"

definition axios_request :: "transport \<Rightarrow> AxiosDefaults \<Rightarrow> AxiosRequestConfig \<Rightarrow> jsval + AxiosResponse" where
  "axios_request net inst config = net (mergeConfig inst config) config"

text \<open>
  The method aliases of the library: \<open>get(url)\<close> and \<open>post(url, data)\<close> are
  \<open>request\<close> with \<open>method\<close>, \<open>url\<close> and \<open>data\<close> filled in.
\<close>

definition axios_get :: "transport \<Rightarrow> AxiosDefaults \<Rightarrow> string \<Rightarrow> jsval + AxiosResponse" where
  "axios_get net inst u =
     axios_request net inst
       \<lparr>cfg_url = u, cfg_method = ''get'', cfg_data = JUndefined, cfg_params = JUndefined,
        cfg_headers = []\<rparr>"

definition axios_post :: "transport \<Rightarrow> AxiosDefaults \<Rightarrow> string \<Rightarrow> jsval \<Rightarrow> jsval + AxiosResponse" where
  "axios_post net inst u d =
     axios_request net inst
       \<lparr>cfg_url = u, cfg_method = ''post'', cfg_data = d, cfg_params = JUndefined,
        cfg_headers = []\<rparr>"

section \<open>The client\<close>

text \<open>
  \<^verbatim>\<open>
  export interface TaxuConfig { apiKey: string; baseURL?: string; timeout?: number; }
  \<close>
\<close>

record TaxuConfig =
  apiKey :: string
  baseURL :: "string option"
  timeout :: "js_number option"

record TaxuClient =
  client :: AxiosDefaults
  this_apiKey :: string

text \<open>
  \<open>a || d\<close> for an optional string and for an optional number: the default is taken
  when the left operand is falsy, that is, absent, or the empty string, or zero or
  NaN.
\<close>

definition string_or :: "string option \<Rightarrow> string \<Rightarrow> string" where
  "string_or a d = (case a of None \<Rightarrow> d | Some s \<Rightarrow> if truthy (JStr s) then s else d)"

definition number_or :: "js_number option \<Rightarrow> js_number \<Rightarrow> js_number" where
  "number_or a d = (case a of None \<Rightarrow> d | Some n \<Rightarrow> if number_truthy n then n else d)"

text \<open>
  \<^verbatim>\<open>
  constructor(config: TaxuConfig) {
    this.apiKey = config.apiKey;
    this.client = axios.create({
      baseURL: config.baseURL || 'https://api.taxu.io/v1',
      timeout: config.timeout || 10000,
      headers: {
        'Authorization': `Bearer ${this.apiKey}`,
        'Content-Type': 'application/json',
        'User-Agent': 'taxu-js/0.1.0'
      }
    });
  }
  \<close>
\<close>

definition TaxuClient_new :: "TaxuConfig \<Rightarrow> TaxuClient" where
  "TaxuClient_new config =
     (let key = apiKey config in
      \<lparr>client = axios_create
         \<lparr>create_baseURL = string_or (baseURL config) ''https://api.taxu.io/v1'',
          create_timeout = number_or (timeout config) (Num 10000),
          create_headers =
            [(''Authorization'', ''Bearer '' @ to_string (JStr key)),
             (''Content-Type'', ''application/json''),
             (''User-Agent'', ''taxu-js/0.1.0'')]\<rparr>,
       this_apiKey = key\<rparr>)"

text \<open>
  \<^verbatim>\<open>
  export function createTaxuClient(apiKeyOrConfig: string | TaxuConfig): TaxuClient {
    if (typeof apiKeyOrConfig === 'string') {
      return new TaxuClient({ apiKey: apiKeyOrConfig });
    }
    return new TaxuClient(apiKeyOrConfig);
  }
  \<close>
  The union \<open>string | TaxuConfig\<close> is a sum: \<open>Inl\<close> the bare key, \<open>Inr\<close> the object.
\<close>

definition createTaxuClient :: "string + TaxuConfig \<Rightarrow> TaxuClient" where
  "createTaxuClient apiKeyOrConfig =
     (case apiKeyOrConfig of
        Inl key \<Rightarrow> TaxuClient_new \<lparr>apiKey = key, baseURL = None, timeout = None\<rparr>
      | Inr config \<Rightarrow> TaxuClient_new config)"

subsection \<open>The public methods\<close>

text \<open>
  A method returns a promise: \<open>Inr\<close> the value it resolves with, \<open>Inl\<close> the error it
  rejects with. Each one awaits the library call in a \<open>try\<close> block, returns
  \<open>response.data\<close>, and in the \<open>catch\<close> block throws \<open>this.handleError(error)\<close>.
  The request body of \<open>calculateTax\<close> is forwarded as it is and is a plain value here.
\<close>

definition calculateTax :: "transport \<Rightarrow> TaxuClient \<Rightarrow> jsval \<Rightarrow> js_error + jsval" where
  "calculateTax net this req =
     (case axios_post net (client this) ''/tax/calculate'' req of
        Inr response \<Rightarrow> Inr (resp_data response)
      | Inl error \<Rightarrow> Inl (handleError error))"

definition getJurisdictions :: "transport \<Rightarrow> TaxuClient \<Rightarrow> js_error + jsval" where
  "getJurisdictions net this =
     (case axios_get net (client this) ''/jurisdictions'' of
        Inr response \<Rightarrow> Inr (resp_data response)
      | Inl error \<Rightarrow> Inl (handleError error))"

definition ping :: "transport \<Rightarrow> TaxuClient \<Rightarrow> js_error + jsval" where
  "ping net this =
     (case axios_get net (client this) ''/ping'' of
        Inr response \<Rightarrow> Inr (resp_data response)
      | Inl error \<Rightarrow> Inl (handleError error))"

text \<open>
  \<^verbatim>\<open>
  async request<T = any>(endpoint: string,
      options?: { method?: 'GET' | 'POST' | 'PUT' | 'DELETE' | 'PATCH'; data?: any;
                  params?: Record<string, any>; }) {
    try {
      const { method = 'GET', data, params } = options || {};
      const response = await this.client.request({
        url: endpoint, method: method.toLowerCase() as any, data, params });
      return response.data;
    } catch (error) { throw this.handleError(error); }
  }
  \<close>
\<close>

datatype http_method = GET | POST | PUT | DELETE | PATCH

fun method_name :: "http_method \<Rightarrow> string" where
  "method_name GET = ''GET''"
| "method_name POST = ''POST''"
| "method_name PUT = ''PUT''"
| "method_name DELETE = ''DELETE''"
| "method_name PATCH = ''PATCH''"

definition char_toLowerCase :: "char \<Rightarrow> char" where
  "char_toLowerCase c =
     (case map_of (zip ''ABCDEFGHIJKLMNOPQRSTUVWXYZ'' ''abcdefghijklmnopqrstuvwxyz'') c of
        None \<Rightarrow> c | Some l \<Rightarrow> l)"

definition toLowerCase :: "string \<Rightarrow> string" where
  "toLowerCase s = map char_toLowerCase s"

record RequestOptions =
  opt_method :: "http_method option"
  opt_data :: jsval
  opt_params :: jsval

definition request :: "transport \<Rightarrow> TaxuClient \<Rightarrow> string \<Rightarrow> RequestOptions option \<Rightarrow> js_error + jsval" where
  "request net this endpoint options =
     (let opts = (case options of
                    None \<Rightarrow> \<lparr>opt_method = None, opt_data = JUndefined, opt_params = JUndefined\<rparr>
                  | Some ob \<Rightarrow> ob);
          method = (case opt_method opts of None \<Rightarrow> GET | Some m \<Rightarrow> m)
      in case axios_request net (client this)
                \<lparr>cfg_url = endpoint, cfg_method = toLowerCase (method_name method),
                 cfg_data = opt_data opts, cfg_params = opt_params opts,
                 cfg_headers = []\<rparr> of
           Inr response \<Rightarrow> Inr (resp_data response)
         | Inl error \<Rightarrow> Inl (handleError error))"

section \<open>Basic facts\<close>

lemma get_prop_truthy: "truthy v \<Longrightarrow> get_prop v k = Some (get_prop_opt v k)"
  by (cases v) (auto split: option.splits)

lemma handleError_response:
  assumes "get_prop error ''response'' = Some response" and "truthy response"
  shows "handleError error =
           (let m = get_prop_opt (get_prop_opt response ''data'') ''message'' in
            Error (if truthy m then to_string m
                   else ''API Error: '' @ to_string (get_prop_opt response ''status'')))"
  using assms by (simp add: handleError_def get_prop_truthy Let_def)

lemma handleError_no_response:
  assumes "get_prop error ''response'' = Some response" and "\<not> truthy response"
    and "get_prop error ''request'' = Some req"
  shows "handleError error =
           (if truthy req then Error ''Network error: Unable to reach Taxu API''
            else case get_prop error ''message'' of
                   None \<Rightarrow> TypeError
                 | Some message \<Rightarrow> Error (''Request error: '' @ to_string message))"
  using assms by (simp add: handleError_def)

lemma merge_headers_none [simp]: "merge_headers hs [] = hs"
  by (induction hs) (auto simp add: merge_headers_def)

lemma mergeConfig_no_headers: "cfg_headers config = [] \<Longrightarrow> mergeConfig inst config = inst"
  by (simp add: mergeConfig_def)

text \<open>A header given per call would replace the default of the same name.\<close>

lemma merge_headers_overrides:
  "merge_headers [(''Authorization'', ''Bearer k''), (''Content-Type'', ''application/json'')]
     [(''Authorization'', ''other''), (''Accept'', ''text/plain'')]
   = [(''Authorization'', ''other''), (''Content-Type'', ''application/json''),
      (''Accept'', ''text/plain'')]"
  by (simp add: merge_headers_def)

text \<open>A method whose library call throws rejects with the normalised error.\<close>

lemma calculateTax_throws:
  "calculateTax (\<lambda>inst config. Inl error) this r = Inl (handleError error)"
  by (simp add: calculateTax_def axios_post_def axios_request_def)

lemma getJurisdictions_throws:
  "getJurisdictions (\<lambda>inst config. Inl error) this = Inl (handleError error)"
  by (simp add: getJurisdictions_def axios_get_def axios_request_def)

lemma ping_throws:
  "ping (\<lambda>inst config. Inl error) this = Inl (handleError error)"
  by (simp add: ping_def axios_get_def axios_request_def)

lemma request_throws:
  "request (\<lambda>inst config. Inl error) this endpoint options = Inl (handleError error)"
  by (simp add: request_def axios_request_def Let_def)

lemmas methods_throw = calculateTax_throws getJurisdictions_throws ping_throws request_throws

text \<open>
  Each method makes one library call, so its result under any transport is its
  result under the transport that always gives the outcome of that call. The
  statements below about a transport that always throws, or always resolves, thus
  cover every transport whose call for the method at hand has that outcome.
\<close>

lemma calculateTax_one_call:
  "calculateTax net this r =
     calculateTax
       (\<lambda>inst config. net (client this)
          \<lparr>cfg_url = ''/tax/calculate'', cfg_method = ''post'', cfg_data = r,
           cfg_params = JUndefined, cfg_headers = []\<rparr>) this r"
  by (simp add: calculateTax_def axios_post_def axios_request_def mergeConfig_no_headers)

lemma getJurisdictions_one_call:
  "getJurisdictions net this =
     getJurisdictions
       (\<lambda>inst config. net (client this)
          \<lparr>cfg_url = ''/jurisdictions'', cfg_method = ''get'', cfg_data = JUndefined,
           cfg_params = JUndefined, cfg_headers = []\<rparr>) this"
  by (simp add: getJurisdictions_def axios_get_def axios_request_def mergeConfig_no_headers)

lemma ping_one_call:
  "ping net this =
     ping
       (\<lambda>inst config. net (client this)
          \<lparr>cfg_url = ''/ping'', cfg_method = ''get'', cfg_data = JUndefined,
           cfg_params = JUndefined, cfg_headers = []\<rparr>) this"
  by (simp add: ping_def axios_get_def axios_request_def mergeConfig_no_headers)

lemma request_one_call:
  "request net this endpoint (Some \<lparr>opt_method = Some m, opt_data = d, opt_params = p\<rparr>) =
     request
       (\<lambda>inst config. net (client this)
          \<lparr>cfg_url = endpoint, cfg_method = toLowerCase (method_name m), cfg_data = d,
           cfg_params = p, cfg_headers = []\<rparr>) this endpoint
       (Some \<lparr>opt_method = Some m, opt_data = d, opt_params = p\<rparr>)"
  by (simp add: request_def axios_request_def mergeConfig_no_headers)

lemma request_one_call_default:
  "request net this endpoint None =
     request
       (\<lambda>inst config. net (client this)
          \<lparr>cfg_url = endpoint, cfg_method = ''get'', cfg_data = JUndefined,
           cfg_params = JUndefined, cfg_headers = []\<rparr>) this endpoint None"
  by (simp add: request_def axios_request_def mergeConfig_no_headers
      toLowerCase_def char_toLowerCase_def)

section \<open>Error messages\<close>

text \<open>
  C1, as the code has it. When the thrown error carries a response (a truthy
  \<open>response\<close> property), and \<open>m\<close> is the \<open>message\<close> property of the decoded body
  \<open>response.data\<close>: if \<open>m\<close> is a non-empty string, the rejection message is \<open>m\<close>;
  if \<open>m\<close> is absent or falsy (the empty string, \<open>null\<close>, \<open>0\<close>, \<open>false\<close>), it is
  \<open>API Error: \<close> followed by the status. Nothing is assumed of the \<open>request\<close> and
  \<open>message\<close> properties of the error: this case comes first. The same holds for
  each public method whose library call throws that error.
\<close>

theorem server_response_message:
  assumes "get_prop error ''response'' = Some response" and "truthy response"
    and "get_prop_opt (get_prop_opt response ''data'') ''message'' = m"
    and "(\<exists>M. m = JStr M) \<or> \<not> truthy m"
  shows "let fallback = Error (''API Error: '' @ to_string (get_prop_opt response ''status''));
             e = (case m of JStr M \<Rightarrow> if M = [] then fallback else Error M | _ \<Rightarrow> fallback)
         in handleError error = e
          \<and> calculateTax (\<lambda>inst config. Inl error) this r = Inl e
          \<and> getJurisdictions (\<lambda>inst config. Inl error) this = Inl e
          \<and> ping (\<lambda>inst config. Inl error) this = Inl e
          \<and> request (\<lambda>inst config. Inl error) this endpoint options = Inl e"
proof -
  have "handleError error =
          (case m of
             JStr M \<Rightarrow> if M = [] then Error (''API Error: '' @ to_string (get_prop_opt response ''status''))
                       else Error M
           | _ \<Rightarrow> Error (''API Error: '' @ to_string (get_prop_opt response ''status'')))"
    using handleError_response [OF assms(1,2)] assms(3,4)
    by (cases m) (auto simp add: Let_def)
  then show ?thesis
    unfolding Let_def methods_throw by (simp only: simp_thms)
qed

theorem server_response_message_witness:
  "handleError
     (JObj [(''message'', JStr ''Request failed with status code 400''),
            (''request'', JObj []),
            (''response'', JObj [(''status'', JNum 400),
               (''data'', JObj [(''message'', JStr ''Invalid request parameters''),
                                (''code'', JStr ''INVALID_PARAMS'')])])])
     = Error ''Invalid request parameters''
   \<and> handleError
       (JObj [(''message'', JStr ''Request failed with status code 500''),
              (''request'', JObj []),
              (''response'', JObj [(''status'', JNum 500)])])
     = Error ''API Error: 500''
   \<and> request
       (\<lambda>inst config. Inl
          (JObj [(''message'', JStr ''Request failed with status code 500''),
                 (''request'', JObj []),
                 (''response'', JObj [(''status'', JNum 500)])]))
       (createTaxuClient (Inl ''test-api-key-123'')) ''/server-error'' None
     = Inl (Error ''API Error: 500'')"
proof -
  let ?body = "JObj [(''message'', JStr ''Invalid request parameters''), (''code'', JStr ''INVALID_PARAMS'')]"
  let ?r400 = "JObj [(''status'', JNum 400), (''data'', ?body)]"
  let ?e400 = "JObj [(''message'', JStr ''Request failed with status code 400''),
                     (''request'', JObj []), (''response'', ?r400)]"
  let ?r500 = "JObj [(''status'', JNum 500)]"
  let ?e500 = "JObj [(''message'', JStr ''Request failed with status code 500''),
                     (''request'', JObj []), (''response'', ?r500)]"
  have a: "get_prop ?e400 ''response'' = Some ?r400" and b: "truthy ?r400"
    and a': "get_prop_opt (get_prop_opt ?r400 ''data'') ''message''
               = JStr ''Invalid request parameters''"
    and a'': "(\<exists>M. JStr ''Invalid request parameters'' = JStr M)
               \<or> \<not> truthy (JStr ''Invalid request parameters'')"
    by simp_all
  have c: "get_prop ?e500 ''response'' = Some ?r500" and d: "truthy ?r500"
    and c': "get_prop_opt (get_prop_opt ?r500 ''data'') ''message'' = JUndefined"
    and c'': "(\<exists>M. JUndefined = JStr M) \<or> \<not> truthy JUndefined"
    by simp_all
  have n: "nat_to_string 500 = ''500''"
    by (simp add: nat_to_string.simps digit_char_def)
  show ?thesis
    using server_response_message [OF a b a' a'']
      server_response_message [OF c d c' c'',
        where this = "createTaxuClient (Inl ''test-api-key-123'')"
        and endpoint = "''/server-error''" and options = None]
    by (simp add: Let_def int_to_string_def n)
qed

text \<open>
  C1, as the claim states it, fails when the body carries a \<open>message\<close> that is
  the empty string: status 400 with body \<open>{message: ""}\<close> is rejected with
  \<open>API Error: 400\<close>, not with the body's message.
\<close>

theorem server_response_message_counterexample:
  "map_of [(''message'', JStr '''')] ''message'' = Some (JStr '''')
   \<and> handleError
       (JObj [(''message'', JStr ''Request failed with status code 400''),
              (''request'', JObj []),
              (''response'', JObj [(''status'', JNum 400),
                                   (''data'', JObj [(''message'', JStr '''')])])])
     = Error ''API Error: 400''
   \<and> handleError
       (JObj [(''message'', JStr ''Request failed with status code 400''),
              (''request'', JObj []),
              (''response'', JObj [(''status'', JNum 400),
                                   (''data'', JObj [(''message'', JStr '''')])])])
     \<noteq> Error ''''"
  by (simp add: handleError_def int_to_string_def nat_to_string.simps digit_char_def)

text \<open>
  C2. When the thrown error carries no response (its \<open>response\<close> property is
  falsy) and carries a request (a truthy \<open>request\<close> property), the rejection
  message is exactly \<open>Network error: Unable to reach Taxu API\<close>, from
  \<open>handleError\<close> and from each public method whose library call throws that error.
\<close>

theorem no_response_message:
  assumes "get_prop error ''response'' = Some response" and "\<not> truthy response"
    and "get_prop error ''request'' = Some req" and "truthy req"
  shows "handleError error = Error ''Network error: Unable to reach Taxu API''
       \<and> calculateTax (\<lambda>inst config. Inl error) this r
           = Inl (Error ''Network error: Unable to reach Taxu API'')
       \<and> getJurisdictions (\<lambda>inst config. Inl error) this
           = Inl (Error ''Network error: Unable to reach Taxu API'')
       \<and> ping (\<lambda>inst config. Inl error) this
           = Inl (Error ''Network error: Unable to reach Taxu API'')
       \<and> request (\<lambda>inst config. Inl error) this endpoint options
           = Inl (Error ''Network error: Unable to reach Taxu API'')"
  using handleError_no_response [OF assms(1-3)] assms(4) by (simp add: methods_throw)

theorem no_response_message_witness:
  "handleError (JObj [(''message'', JStr ''connect ECONNREFUSED 127.0.0.1:443''),
                      (''request'', JObj [])])
     = Error ''Network error: Unable to reach Taxu API''"
proof -
  let ?e = "JObj [(''message'', JStr ''connect ECONNREFUSED 127.0.0.1:443''), (''request'', JObj [])]"
  have a: "get_prop ?e ''response'' = Some JUndefined" and b: "\<not> truthy JUndefined"
    and c: "get_prop ?e ''request'' = Some (JObj [])" and d: "truthy (JObj [])"
    by simp_all
  show ?thesis
    using no_response_message [OF a b c d] by simp
qed

text \<open>
  C3. When the thrown error carries neither a response nor a request (both
  properties falsy) and its \<open>message\<close> is the string \<open>X\<close>, the rejection message is
  exactly \<open>Request error: X\<close>, from \<open>handleError\<close> and from each public method.
\<close>

theorem local_error_message:
  assumes "get_prop error ''response'' = Some response" and "\<not> truthy response"
    and "get_prop error ''request'' = Some req" and "\<not> truthy req"
    and "get_prop error ''message'' = Some (JStr X)"
  shows "handleError error = Error (''Request error: '' @ X)
       \<and> calculateTax (\<lambda>inst config. Inl error) this r = Inl (Error (''Request error: '' @ X))
       \<and> getJurisdictions (\<lambda>inst config. Inl error) this = Inl (Error (''Request error: '' @ X))
       \<and> ping (\<lambda>inst config. Inl error) this = Inl (Error (''Request error: '' @ X))
       \<and> request (\<lambda>inst config. Inl error) this endpoint options
           = Inl (Error (''Request error: '' @ X))"
  using handleError_no_response [OF assms(1-3)] assms(4,5) by (simp add: methods_throw)

theorem local_error_message_witness:
  "handleError (JObj [(''message'', JStr ''Custom request error'')])
     = Error ''Request error: Custom request error''"
proof -
  let ?e = "JObj [(''message'', JStr ''Custom request error'')]"
  have a: "get_prop ?e ''response'' = Some JUndefined" and b: "\<not> truthy JUndefined"
    and c: "get_prop ?e ''request'' = Some JUndefined"
    and d: "get_prop ?e ''message'' = Some (JStr ''Custom request error'')"
    by simp_all
  show ?thesis
    using local_error_message [OF a b c b d] by simp
qed

text \<open>
  C10. When the body of an error response carries a \<open>message\<close> that is falsy (the
  empty string, \<open>null\<close>, \<open>0\<close> or \<open>false\<close>), the rejection message is the fallback
  \<open>API Error: \<close> followed by the status, not that value.
\<close>

theorem falsy_server_message:
  assumes "get_prop error ''response'' = Some response" and "truthy response"
    and "get_prop_opt (get_prop_opt response ''data'') ''message''
           \<in> {JStr '''', JNull, JNum 0, JBool False}"
  shows "let e = Error (''API Error: '' @ to_string (get_prop_opt response ''status''))
         in handleError error = e
          \<and> calculateTax (\<lambda>inst config. Inl error) this r = Inl e
          \<and> getJurisdictions (\<lambda>inst config. Inl error) this = Inl e
          \<and> ping (\<lambda>inst config. Inl error) this = Inl e
          \<and> request (\<lambda>inst config. Inl error) this endpoint options = Inl e"
  using handleError_response [OF assms(1,2)] assms(3)
  by (auto simp add: methods_throw Let_def)

theorem falsy_server_message_witness:
  "handleError
     (JObj [(''response'', JObj [(''status'', JNum 503),
                                 (''data'', JObj [(''message'', JNull)])])])
     = Error ''API Error: 503''"
proof -
  let ?r = "JObj [(''status'', JNum 503), (''data'', JObj [(''message'', JNull)])]"
  let ?e = "JObj [(''response'', ?r)]"
  have a: "get_prop ?e ''response'' = Some ?r" and b: "truthy ?r"
    and c: "get_prop_opt (get_prop_opt ?r ''data'') ''message''
              \<in> {JStr '''', JNull, JNum 0, JBool False}"
    by simp_all
  have n: "nat_to_string 503 = ''503''"
    by (simp add: nat_to_string.simps digit_char_def)
  show ?thesis
    using falsy_server_message [OF a b c] by (simp add: Let_def int_to_string_def n)
qed

section \<open>Successful calls\<close>

text \<open>
  C4. When the library call resolves with a response (which axios does for the
  2xx statuses), each public method resolves with the decoded body
  \<open>response.data\<close> itself, whatever it holds: no property of the envelope is read
  or changed. In particular the envelope \<open>{data: ["US","CA","GB"], success: true}\<close>
  comes back from \<open>getJurisdictions\<close> with its sequence in the same order.
\<close>

theorem success_returns_body:
  "calculateTax (\<lambda>inst config. Inr response) this r = Inr (resp_data response)
   \<and> getJurisdictions (\<lambda>inst config. Inr response) this = Inr (resp_data response)
   \<and> ping (\<lambda>inst config. Inr response) this = Inr (resp_data response)
   \<and> request (\<lambda>inst config. Inr response) this endpoint options = Inr (resp_data response)
   \<and> getJurisdictions
        (\<lambda>inst config. Inr \<lparr>resp_data = JObj [(''data'', JArr [JStr ''US'', JStr ''CA'', JStr ''GB'']),
                                              (''success'', JBool True)],
                             resp_status = 200\<rparr>) this
       = Inr (JObj [(''data'', JArr [JStr ''US'', JStr ''CA'', JStr ''GB'']),
                    (''success'', JBool True)])"
  by (simp add: calculateTax_def getJurisdictions_def ping_def request_def
      axios_post_def axios_get_def axios_request_def Let_def)

section \<open>Construction\<close>

lemma TaxuClient_new_eq:
  "TaxuClient_new config =
     \<lparr>client =
        \<lparr>create_baseURL = string_or (baseURL config) ''https://api.taxu.io/v1'',
         create_timeout = number_or (timeout config) (Num 10000),
         create_headers =
           [(''Authorization'', ''Bearer '' @ apiKey config),
            (''Content-Type'', ''application/json''),
            (''User-Agent'', ''taxu-js/0.1.0'')]\<rparr>,
      this_apiKey = apiKey config\<rparr>"
  by (simp add: TaxuClient_new_def axios_create_def Let_def)

text \<open>
  C5. \<open>createTaxuClient\<close> takes a bare key or a configuration object. From a bare
  key, whatever it is, it builds the client of the configuration holding only that
  key: base address and timeout are the defaults. Construction has no failing
  branch, so every key, the empty string included, yields a client.
\<close>

theorem createTaxuClient_bare_key:
  "createTaxuClient (Inl key) =
     \<lparr>client =
        \<lparr>create_baseURL = ''https://api.taxu.io/v1'',
         create_timeout = Num 10000,
         create_headers =
           [(''Authorization'', ''Bearer '' @ key),
            (''Content-Type'', ''application/json''),
            (''User-Agent'', ''taxu-js/0.1.0'')]\<rparr>,
      this_apiKey = key\<rparr>
   \<and> createTaxuClient (Inl key)
       = createTaxuClient (Inr \<lparr>apiKey = key, baseURL = None, timeout = None\<rparr>)
   \<and> createTaxuClient (Inr config) = TaxuClient_new config
   \<and> create_headers (client (createTaxuClient (Inl '''')))
       = [(''Authorization'', ''Bearer ''),
          (''Content-Type'', ''application/json''),
          (''User-Agent'', ''taxu-js/0.1.0'')]"
  by (simp add: createTaxuClient_def TaxuClient_new_eq string_or_def number_or_def)

text \<open>
  C6, as the code has it. An omitted base address or timeout takes the default
  (\<open>https://api.taxu.io/v1\<close>, 10000); a supplied base address that is not the empty
  string, and a supplied timeout that is neither zero nor NaN, are truthy and are
  used exactly.
\<close>

theorem defaults_and_overrides:
  "create_baseURL (client (TaxuClient_new (config\<lparr>baseURL := None\<rparr>))) = ''https://api.taxu.io/v1''
   \<and> create_timeout (client (TaxuClient_new (config\<lparr>timeout := None\<rparr>))) = Num 10000
   \<and> (u \<noteq> [] \<longrightarrow> create_baseURL (client (TaxuClient_new (config\<lparr>baseURL := Some u\<rparr>))) = u)
   \<and> (t \<noteq> Num 0 \<and> t \<noteq> NaN \<longrightarrow>
        create_timeout (client (TaxuClient_new (config\<lparr>timeout := Some t\<rparr>))) = t)"
  by (cases t) (simp_all add: TaxuClient_new_eq string_or_def number_or_def)

theorem defaults_and_overrides_witness:
  "''https://custom.api.taxu.io/v2'' \<noteq> [] \<and> Num 5000 \<noteq> Num 0 \<and> Num 5000 \<noteq> NaN
   \<and> create_baseURL (client (TaxuClient_new
        \<lparr>apiKey = ''test-api-key-config'', baseURL = Some ''https://custom.api.taxu.io/v2'',
         timeout = Some (Num 5000)\<rparr>)) = ''https://custom.api.taxu.io/v2''
   \<and> create_timeout (client (TaxuClient_new
        \<lparr>apiKey = ''test-api-key-config'', baseURL = Some ''https://custom.api.taxu.io/v2'',
         timeout = Some (Num 5000)\<rparr>)) = Num 5000"
  using defaults_and_overrides
    [where config = "\<lparr>apiKey = ''test-api-key-config'',
                      baseURL = Some ''https://custom.api.taxu.io/v2'',
                      timeout = Some (Num 5000)\<rparr>"
       and u = "''https://custom.api.taxu.io/v2''" and t = "Num 5000"]
  by simp

text \<open>
  C6, as the claim states it, fails for a supplied timeout of zero: the client
  is built with the timeout 10000.
\<close>

theorem defaults_and_overrides_counterexample:
  "timeout \<lparr>apiKey = ''k'', baseURL = None, timeout = Some (Num 0)\<rparr> = Some (Num 0)
   \<and> create_timeout
        (client (TaxuClient_new \<lparr>apiKey = ''k'', baseURL = None, timeout = Some (Num 0)\<rparr>))
       = Num 10000
   \<and> create_timeout
        (client (TaxuClient_new \<lparr>apiKey = ''k'', baseURL = None, timeout = Some (Num 0)\<rparr>))
       \<noteq> Num 0"
  by (simp add: TaxuClient_new_eq number_or_def)

text \<open>
  C9. A supplied timeout of zero and a supplied empty base address are replaced
  by the defaults: the fallback \<open>||\<close> tests truthiness, not absence. So is a
  supplied timeout of NaN, the other falsy number.
\<close>

theorem falsy_overrides_replaced:
  "create_timeout (client (TaxuClient_new (config\<lparr>timeout := Some (Num 0)\<rparr>))) = Num 10000
   \<and> create_baseURL (client (TaxuClient_new (config\<lparr>baseURL := Some ''''\<rparr>)))
       = ''https://api.taxu.io/v1''
   \<and> create_timeout (client (TaxuClient_new (config\<lparr>timeout := Some NaN\<rparr>))) = Num 10000"
  by (simp add: TaxuClient_new_eq string_or_def number_or_def)

section \<open>The named methods and the generic one\<close>

text \<open>
  C7. Each named method is the generic \<open>request\<close> at fixed arguments, for every
  transport and client: the same library call is made, and its outcome is turned
  into the same result or the same error.
\<close>

theorem named_methods_are_requests:
  "calculateTax net this r
     = request net this ''/tax/calculate''
         (Some \<lparr>opt_method = Some POST, opt_data = r, opt_params = JUndefined\<rparr>)
   \<and> getJurisdictions net this = request net this ''/jurisdictions'' None
   \<and> ping net this = request net this ''/ping'' None"
  by (simp add: calculateTax_def getJurisdictions_def ping_def request_def
      axios_post_def axios_get_def axios_request_def Let_def
      toLowerCase_def char_toLowerCase_def)

text \<open>
  C8. The constructor gives the instance three default headers: the bearer
  authorization built from the key, the JSON content type and the client
  identifier. Every public method, at every argument, makes exactly one library
  call, and the settings \<open>s\<close> in force for that call, which are the instance
  defaults merged with the headers of the per-call configuration and which the
  transport receives, carry exactly these three headers with these values: no
  argument of a public method changes, removes or adds a header.
\<close>

theorem default_headers_on_every_call:
  "let this = TaxuClient_new config;
       H = [(''Authorization'', ''Bearer '' @ apiKey config),
            (''Content-Type'', ''application/json''),
            (''User-Agent'', ''taxu-js/0.1.0'')]
   in create_headers (client this) = H
    \<and> (\<exists>s q. create_headers s = H
          \<and> (\<forall>net. calculateTax net this r
                = (case net s q of
                     Inr response \<Rightarrow> Inr (resp_data response)
                   | Inl error \<Rightarrow> Inl (handleError error))))
    \<and> (\<exists>s q. create_headers s = H
          \<and> (\<forall>net. getJurisdictions net this
                = (case net s q of
                     Inr response \<Rightarrow> Inr (resp_data response)
                   | Inl error \<Rightarrow> Inl (handleError error))))
    \<and> (\<exists>s q. create_headers s = H
          \<and> (\<forall>net. ping net this
                = (case net s q of
                     Inr response \<Rightarrow> Inr (resp_data response)
                   | Inl error \<Rightarrow> Inl (handleError error))))
    \<and> (\<exists>s q. create_headers s = H
          \<and> (\<forall>net. request net this endpoint options
                = (case net s q of
                     Inr response \<Rightarrow> Inr (resp_data response)
                   | Inl error \<Rightarrow> Inl (handleError error))))"
proof -
  define this where "this = TaxuClient_new config"
  define H where "H = [(''Authorization'', ''Bearer '' @ apiKey config),
                       (''Content-Type'', ''application/json''),
                       (''User-Agent'', ''taxu-js/0.1.0'')]"
  have h: "create_headers (client this) = H"
    by (simp add: this_def H_def TaxuClient_new_eq)
  have m: "mergeConfig (client this) q = client this" if "cfg_headers q = []" for q
    using that by (rule mergeConfig_no_headers)
  have c1: "\<exists>s q. create_headers s = H
          \<and> (\<forall>net. calculateTax net this r
                = (case net s q of
                     Inr response \<Rightarrow> Inr (resp_data response)
                   | Inl error \<Rightarrow> Inl (handleError error)))"
    unfolding calculateTax_def axios_post_def axios_request_def
    by (intro exI conjI allI, rule h, simp add: m)
  have c2: "\<exists>s q. create_headers s = H
          \<and> (\<forall>net. getJurisdictions net this
                = (case net s q of
                     Inr response \<Rightarrow> Inr (resp_data response)
                   | Inl error \<Rightarrow> Inl (handleError error)))"
    unfolding getJurisdictions_def axios_get_def axios_request_def
    by (intro exI conjI allI, rule h, simp add: m)
  have c3: "\<exists>s q. create_headers s = H
          \<and> (\<forall>net. ping net this
                = (case net s q of
                     Inr response \<Rightarrow> Inr (resp_data response)
                   | Inl error \<Rightarrow> Inl (handleError error)))"
    unfolding ping_def axios_get_def axios_request_def
    by (intro exI conjI allI, rule h, simp add: m)
  have c4: "\<exists>s q. create_headers s = H
          \<and> (\<forall>net. request net this endpoint options
                = (case net s q of
                     Inr response \<Rightarrow> Inr (resp_data response)
                   | Inl error \<Rightarrow> Inl (handleError error)))"
    unfolding request_def axios_request_def Let_def
    by (intro exI conjI allI, rule h, simp add: m)
  show ?thesis
    using h c1 c2 c3 c4 by (simp add: Let_def this_def H_def)
qed

end
